theory Spec2Isabelle
  imports Main
begin

section \<open>Values carried through the pipeline\<close>

text \<open>
  The exceptions that \<^verbatim>\<open>base.py\<close> raises, catches or forwards. All of them are
  subclasses of Python's \<^verbatim>\<open>Exception\<close>; \<^verbatim>\<open>NetworkError\<close> is the one kind that
  \<^verbatim>\<open>worker_network\<close> treats as transient. \<open>Error\<close> stands for any other exception
  raised by a collaborator (transport, task generator, handler).
\<close>

datatype exn =
    NetworkError string
  | UnknownTaskType string
  | KeyError string
  | AssertionError
  | Error string

text \<open>
  Modelled from the spec: the class \<^verbatim>\<open>Request\<close> of module \<^verbatim>\<open>request\<close>, which is not
  among the sources. \<^verbatim>\<open>base.py\<close> reads \<^verbatim>\<open>url\<close> and \<^verbatim>\<open>tag\<close> and reads and writes
  \<^verbatim>\<open>network_try_count\<close>, a Python integer.
\<close>

record request =
  url :: string
  tag :: string
  network_try_count :: int

text \<open>
  Modelled from the spec: the class \<^verbatim>\<open>Response\<close> of module \<^verbatim>\<open>response\<close>, an opaque
  value made by the transport and handed to one handler.
\<close>

type_synonym response = string

text \<open>
  A value pulled from the task generator or yielded by a handler: either an instance of
  \<^verbatim>\<open>Request\<close> or any other object (kept as its \<^verbatim>\<open>%s\<close> rendering).
\<close>

datatype task = Req request | Other string

text \<open>
  A Python generator, as far as a consumer can see it: it yields a value and goes on, it
  is exhausted, or pulling from it raises.
\<close>

datatype 'a lazy_seq = Next 'a "'a lazy_seq" | Exhausted | Raising exn

text \<open>What \<^verbatim>\<open>network_transport.process_request(req)\<close> does: return a response or raise.\<close>

datatype fetch_result = Fetched response | Fetch_raises exn

text \<open>
  What a call \<^verbatim>\<open>handler(req, resp)\<close> does: return \<^verbatim>\<open>None\<close>, return an iterable
  (a generator), or raise.
\<close>

datatype handler_result =
    Returns_None
  | Returns_seq "task lazy_seq"
  | Handler_raises exn

type_synonym handler = "request \<Rightarrow> response \<Rightarrow> handler_result"

section \<open>Queues\<close>

text \<open>
  \<^verbatim>\<open>queue.Queue(maxsize)\<close>: a FIFO whose \<^verbatim>\<open>put\<close> blocks while the queue is full. As
  in the standard library, a \<^verbatim>\<open>maxsize\<close> of zero or less means that the queue is never
  full. A blocked operation is \<open>None\<close>.
\<close>

record 'a queue =
  maxsize :: int
  items :: "'a list"

definition Queue :: "int \<Rightarrow> 'a queue" where
  "Queue n = \<lparr>maxsize = n, items = []\<rparr>"

definition qsize :: "'a queue \<Rightarrow> nat" where
  "qsize q = length (items q)"

definition full :: "'a queue \<Rightarrow> bool" where
  "full q = (0 < maxsize q \<and> maxsize q \<le> int (qsize q))"

definition put :: "'a \<Rightarrow> 'a queue \<Rightarrow> 'a queue option" where
  "put x q = (if full q then None else Some (q\<lparr>items := items q @ [x]\<rparr>))"

definition get :: "'a queue \<Rightarrow> ('a \<times> 'a queue) option" where
  "get q = (case items q of [] \<Rightarrow> None | x # xs \<Rightarrow> Some (x, q\<lparr>items := xs\<rparr>))"

section \<open>The crawler object\<close>

record config =
  num_network_threads :: int
  num_parsers :: int
  network_try_limit :: int
  task_try_limit :: int

text \<open>
  The entry that \<^verbatim>\<open>start_threads\<close> stores in a pool for each thread. The field
  \<open>thread\<close> is the place in its code where the thread stands.
\<close>

record 'pc worker =
  thread :: 'pc
  active :: bool
  paused :: bool

text \<open>Where a network worker stands in \<^verbatim>\<open>worker_network\<close> (line numbers of base.py).\<close>

datatype net_pc =
    Net_get \<comment> \<open>83: \<^verbatim>\<open>req = self._request_queue.get()\<close>\<close>
  | Net_mark request \<comment> \<open>86: \<^verbatim>\<open>active = True\<close>\<close>
  | Net_fetch request \<comment> \<open>90 to 101: the fetch and its \<^verbatim>\<open>except\<close> clauses\<close>
  | Net_requeue request \<comment> \<open>99: \<^verbatim>\<open>self._request_queue.put(req)\<close>\<close>
  | Net_forward request response \<comment> \<open>103: \<^verbatim>\<open>self._response_queue.put((req, resp))\<close>\<close>
  | Net_unmark \<comment> \<open>105: \<^verbatim>\<open>active = False\<close>\<close>
  | Net_exit \<comment> \<open>85: \<^verbatim>\<open>return\<close>\<close>

text \<open>Where a parser worker stands in \<^verbatim>\<open>worker_parser\<close>.\<close>

datatype parser_pc =
    Parser_get \<comment> \<open>123: \<^verbatim>\<open>self._response_queue.get(True, 0.5)\<close>\<close>
  | Parser_wait \<comment> \<open>127: \<^verbatim>\<open>self._resume_event.wait()\<close>\<close>
  | Parser_handle request response \<comment> \<open>133 to 139: lookup and call of the handler\<close>
  | Parser_iter "task lazy_seq" \<comment> \<open>140 to 142: the loop over the handler's result\<close>
  | Parser_exit \<comment> \<open>131: \<^verbatim>\<open>return\<close>\<close>
  | Parser_crashed exn \<comment> \<open>an exception left \<^verbatim>\<open>worker_parser\<close>: the thread is dead\<close>

text \<open>Where the task generator worker stands in \<^verbatim>\<open>worker_task_generator\<close>.\<close>

datatype gen_pc =
    Gen_next "task lazy_seq" \<comment> \<open>66 to 74: pull the next task\<close>
  | Gen_put request "task lazy_seq" \<comment> \<open>70: \<^verbatim>\<open>self._request_queue.put(task)\<close>\<close>
  | Gen_exit

text \<open>
  Where the calling thread stands in \<^verbatim>\<open>run\<close>. The places of the \<^verbatim>\<open>finally\<close> block
  carry the exception that is being propagated, if any.
\<close>

datatype main_pc =
    Main_while \<comment> \<open>180: \<^verbatim>\<open>while self._work_allowed\<close>\<close>
  | Main_poll \<comment> \<open>182: \<^verbatim>\<open>self._fatal_errors.get(True, 0.1)\<close>\<close>
  | Main_alive \<comment> \<open>187: \<^verbatim>\<open>task_generator_thread.is_alive()\<close>\<close>
  | Main_q1 \<comment> \<open>189: \<^verbatim>\<open>self._request_queue.qsize()\<close>\<close>
  | Main_q2 \<comment> \<open>190: \<^verbatim>\<open>self._response_queue.qsize()\<close>\<close>
  | Main_pause \<comment> \<open>193: \<^verbatim>\<open>self._pause_event.set()\<close>\<close>
  | Main_spin_paused \<comment> \<open>194 to 198\<close>
  | Main_c1 \<comment> \<open>206: \<^verbatim>\<open>self._request_queue.qsize()\<close>\<close>
  | Main_c2 \<comment> \<open>207: \<^verbatim>\<open>self._response_queue.qsize()\<close>\<close>
  | Main_c3 \<comment> \<open>208 to 211: \<^verbatim>\<open>all(not x['active'] ...)\<close>\<close>
  | Main_disallow \<comment> \<open>214: \<^verbatim>\<open>self._work_allowed = False\<close>\<close>
  | Main_unpause \<comment> \<open>218: \<^verbatim>\<open>self._pause_event.clear()\<close>\<close>
  | Main_resume \<comment> \<open>219: \<^verbatim>\<open>self._resume_event.set()\<close>\<close>
  | Main_spin_unpaused \<comment> \<open>221 to 225\<close>
  | Main_clear \<comment> \<open>226: \<^verbatim>\<open>self._resume_event.clear()\<close>\<close>
  | Main_sentinel_net nat "exn option" \<comment> \<open>229, 230: so many sentinels still to push\<close>
  | Main_sentinel_parser nat "exn option" \<comment> \<open>231, 232\<close>
  | Main_join_net nat "exn option" \<comment> \<open>234: the next network thread to join\<close>
  | Main_join_parser nat "exn option" \<comment> \<open>236: the next parser thread to join\<close>
  | Main_final_poll "exn option" \<comment> \<open>238: \<^verbatim>\<open>self._fatal_errors.get(True, 0.1)\<close>\<close>
  | Main_hook "exn option" \<comment> \<open>243: \<^verbatim>\<open>self.shutdown_hook()\<close>\<close>
  | Main_returned \<comment> \<open>\<^verbatim>\<open>run\<close> returned\<close>
  | Main_raised exn \<comment> \<open>\<^verbatim>\<open>run\<close> raised\<close>

text \<open>What the calling thread did in the \<^verbatim>\<open>finally\<close> block of \<^verbatim>\<open>run\<close>, in order.\<close>

datatype main_event =
    Put_request_sentinel
  | Put_response_sentinel
  | Joined_net nat
  | Joined_parser nat
  | Shutdown_hook

text \<open>
  The attributes of a \<^verbatim>\<open>Crawler\<close> together with its threads. The fields from
  \<open>fetched\<close> on are not attributes: they record the calls made to the collaborators
  (\<^verbatim>\<open>process_request\<close>, \<^verbatim>\<open>process_rejected_request\<close>) and what \<^verbatim>\<open>run\<close> did.
\<close>

record crawler =
  config :: config
  request_queue :: "request option queue"
  response_queue :: "(request \<times> response) option queue"
  fatal_errors :: "exn list"
  stat :: "(string \<times> string) list"
  work_allowed :: bool
  pause_event :: bool
  resume_event :: bool
  net_threads :: "net_pc worker list"
  parser_threads :: "parser_pc worker list"
  task_generator_thread :: gen_pc
  main_thread :: main_pc
  fetched :: "request list"
  rejected :: "(request \<times> response option \<times> exn) list"
  main_log :: "main_event list"

text \<open>
  \<^verbatim>\<open>Crawler.__init__\<close>, lines 22 to 52. \<open>cpu_count\<close> is the value of
  \<^verbatim>\<open>multiprocessing.cpu_count()\<close>; Python's \<^verbatim>\<open>//\<close> rounds down, as \<open>div\<close> does.
\<close>

definition init :: "int \<Rightarrow> int \<Rightarrow> int \<Rightarrow> int \<Rightarrow> crawler" where
  "init cpu_count n_network_threads try_limit t_try_limit =
     (let cfg = \<lparr>num_network_threads = n_network_threads,
                 num_parsers = max 1 (cpu_count div 2),
                 network_try_limit = try_limit,
                 task_try_limit = t_try_limit\<rparr>
      in \<lparr>config = cfg,
          request_queue = Queue (num_network_threads cfg),
          response_queue = Queue (num_parsers cfg),
          fatal_errors = [],
          stat = [],
          work_allowed = True,
          pause_event = False,
          resume_event = False,
          net_threads = [],
          parser_threads = [],
          task_generator_thread = Gen_exit,
          main_thread = Main_returned,
          fetched = [],
          rejected = [],
          main_log = []\<rparr>)"

text \<open>
  The collaborators: the transport behind \<^verbatim>\<open>network_transport.process_request\<close>, the
  handlers that \<^verbatim>\<open>register_handlers\<close> finds (by tag), and the sequence that
  \<^verbatim>\<open>task_generator()\<close> produces.
\<close>

record env =
  transport :: "request \<Rightarrow> fetch_result"
  handlers :: "string \<rightharpoonup> handler"
  task_generator :: "task lazy_seq"

text \<open>
  The truth value of a \<^verbatim>\<open>threading.Event\<close> object in a condition, as in
  \<^verbatim>\<open>if self._pause_event:\<close> (line 125). The class defines neither \<^verbatim>\<open>__bool__\<close> nor
  \<^verbatim>\<open>__len__\<close>, so the object is true whether the event is set or not.
\<close>

definition truth_of_Event :: "bool \<Rightarrow> bool" where
  "truth_of_Event is_set = True"

section \<open>The threads, one shared operation at a time\<close>

definition set_net :: "nat \<Rightarrow> net_pc \<Rightarrow> crawler \<Rightarrow> crawler" where
  "set_net i pc s = s\<lparr>net_threads := (net_threads s)[i := (net_threads s ! i)\<lparr>thread := pc\<rparr>]\<rparr>"

definition set_active :: "nat \<Rightarrow> bool \<Rightarrow> crawler \<Rightarrow> crawler" where
  "set_active i b s = s\<lparr>net_threads := (net_threads s)[i := (net_threads s ! i)\<lparr>active := b\<rparr>]\<rparr>"

definition set_parser :: "nat \<Rightarrow> parser_pc \<Rightarrow> crawler \<Rightarrow> crawler" where
  "set_parser i pc s =
     s\<lparr>parser_threads := (parser_threads s)[i := (parser_threads s ! i)\<lparr>thread := pc\<rparr>]\<rparr>"

definition set_paused :: "nat \<Rightarrow> bool \<Rightarrow> crawler \<Rightarrow> crawler" where
  "set_paused i b s =
     s\<lparr>parser_threads := (parser_threads s)[i := (parser_threads s ! i)\<lparr>paused := b\<rparr>]\<rparr>"

text \<open>
  \<^verbatim>\<open>worker_task_generator\<close>, lines 64 to 76. The whole body is inside the
  \<^verbatim>\<open>try\<close>, so whatever the generator raises, and the \<^verbatim>\<open>UnknownTaskType\<close> of line 72,
  ends in \<^verbatim>\<open>self._fatal_errors.put(ex)\<close>, after which the function returns.
\<close>

fun worker_task_generator :: "gen_pc \<Rightarrow> crawler \<Rightarrow> crawler option" where
  "worker_task_generator (Gen_next Exhausted) s = Some (s\<lparr>task_generator_thread := Gen_exit\<rparr>)"
| "worker_task_generator (Gen_next (Raising ex)) s =
     Some (s\<lparr>fatal_errors := fatal_errors s @ [ex], task_generator_thread := Gen_exit\<rparr>)"
| "worker_task_generator (Gen_next (Next t rest)) s =
     (if \<not> work_allowed s then Some (s\<lparr>task_generator_thread := Gen_exit\<rparr>)
      else case t of
        Req r \<Rightarrow> Some (s\<lparr>task_generator_thread := Gen_put r rest\<rparr>)
      | Other x \<Rightarrow>
          Some (s\<lparr>fatal_errors := fatal_errors s
                     @ [UnknownTaskType (''Unknown task got from task_generator: '' @ x)],
                  task_generator_thread := Gen_exit\<rparr>))"
| "worker_task_generator (Gen_put r rest) s =
     (case put (Some r) (request_queue s) of
        None \<Rightarrow> None
      | Some q \<Rightarrow> Some (s\<lparr>request_queue := q, task_generator_thread := Gen_next rest\<rparr>))"
| "worker_task_generator Gen_exit s = None"


text \<open>
  \<^verbatim>\<open>worker_network\<close>, lines 81 to 105. \<open>Net_fetch\<close> is the call of the transport with
  its three outcomes; the two \<^verbatim>\<open>put\<close>s that can block are steps of their own. The
  statistic of line 94 is the url, a bar and the message of the error.
\<close>

fun worker_network :: "env \<Rightarrow> nat \<Rightarrow> net_pc \<Rightarrow> crawler \<Rightarrow> crawler option" where
  "worker_network e i Net_get s =
     (case get (request_queue s) of
        None \<Rightarrow> None
      | Some (None, q) \<Rightarrow> Some (set_net i Net_exit (s\<lparr>request_queue := q\<rparr>))
      | Some (Some req, q) \<Rightarrow> Some (set_net i (Net_mark req) (s\<lparr>request_queue := q\<rparr>)))"
| "worker_network e i (Net_mark req) s = Some (set_net i (Net_fetch req) (set_active i True s))"
| "worker_network e i (Net_fetch req) s =
     (let s = s\<lparr>fetched := fetched s @ [req]\<rparr> in
      case transport e req of
        Fetched resp \<Rightarrow> Some (set_net i (Net_forward req resp) s)
      | Fetch_raises (NetworkError m) \<Rightarrow>
          (let req = req\<lparr>network_try_count := network_try_count req + 1\<rparr> in
           if network_try_count req > network_try_limit (config s)
           then Some (set_net i Net_unmark
                  (s\<lparr>stat := stat s @ [(''network_try_limit'', url req @ ''|'' @ m)],
                     rejected := rejected s @ [(req, None, NetworkError m)]\<rparr>))
           else Some (set_net i (Net_requeue req) s))
      | Fetch_raises ex \<Rightarrow>
          Some (set_net i Net_unmark (s\<lparr>fatal_errors := fatal_errors s @ [ex]\<rparr>)))"
| "worker_network e i (Net_requeue req) s =
     (case put (Some req) (request_queue s) of
        None \<Rightarrow> None
      | Some q \<Rightarrow> Some (set_net i Net_unmark (s\<lparr>request_queue := q\<rparr>)))"
| "worker_network e i (Net_forward req resp) s =
     (case put (Some (req, resp)) (response_queue s) of
        None \<Rightarrow> None
      | Some q \<Rightarrow> Some (set_net i Net_unmark (s\<lparr>response_queue := q\<rparr>)))"
| "worker_network e i Net_unmark s = Some (set_net i Net_get (set_active i False s))"
| "worker_network e i Net_exit s = None"

text \<open>
  \<^verbatim>\<open>worker_parser\<close>, lines 120 to 145. The \<^verbatim>\<open>get\<close> of line 123 has a timeout: on an
  empty queue it raises \<^verbatim>\<open>Empty\<close>. The lookup of line 133 stands before the \<^verbatim>\<open>try\<close>
  of line 137, so its \<^verbatim>\<open>KeyError\<close> leaves the function. The \<^verbatim>\<open>assert\<close> of line 141
  stands inside it.
\<close>

fun worker_parser :: "env \<Rightarrow> nat \<Rightarrow> parser_pc \<Rightarrow> crawler \<Rightarrow> crawler option" where
  "worker_parser e i Parser_get s =
     (case get (response_queue s) of
        None \<Rightarrow>
          (if truth_of_Event (pause_event s)
           then Some (set_parser i Parser_wait (set_paused i True s))
           else Some s)
      | Some (None, q) \<Rightarrow> Some (set_parser i Parser_exit (s\<lparr>response_queue := q\<rparr>))
      | Some (Some (req, resp), q) \<Rightarrow>
          Some (set_parser i (Parser_handle req resp) (s\<lparr>response_queue := q\<rparr>)))"
| "worker_parser e i Parser_wait s =
     (if resume_event s then Some (set_parser i Parser_get (set_paused i False s)) else None)"
| "worker_parser e i (Parser_handle req resp) s =
     (case handlers e (tag req) of
        None \<Rightarrow> Some (set_parser i (Parser_crashed (KeyError (tag req))) s)
      | Some handler \<Rightarrow>
          (case handler req resp of
             Handler_raises ex \<Rightarrow>
               Some (set_parser i Parser_get (s\<lparr>fatal_errors := fatal_errors s @ [ex]\<rparr>))
           | Returns_None \<Rightarrow> Some (set_parser i Parser_get s)
           | Returns_seq hdl_result \<Rightarrow> Some (set_parser i (Parser_iter hdl_result) s)))"
| "worker_parser e i (Parser_iter Exhausted) s = Some (set_parser i Parser_get s)"
| "worker_parser e i (Parser_iter (Raising ex)) s =
     Some (set_parser i Parser_get (s\<lparr>fatal_errors := fatal_errors s @ [ex]\<rparr>))"
| "worker_parser e i (Parser_iter (Next (Other x) rest)) s =
     Some (set_parser i Parser_get (s\<lparr>fatal_errors := fatal_errors s @ [AssertionError]\<rparr>))"
| "worker_parser e i (Parser_iter (Next (Req item) rest)) s =
     (case put (Some item) (request_queue s) of
        None \<Rightarrow> None
      | Some q \<Rightarrow> Some (set_parser i (Parser_iter rest) (s\<lparr>request_queue := q\<rparr>)))"
| "worker_parser e i Parser_exit s = None"
| "worker_parser e i (Parser_crashed ex) s = None"

text \<open>\<^verbatim>\<open>Thread.is_alive()\<close> and the end of \<^verbatim>\<open>Thread.join()\<close>.\<close>

fun is_alive :: "gen_pc \<Rightarrow> bool" where
  "is_alive Gen_exit = False"
| "is_alive _ = True"

fun net_finished :: "net_pc \<Rightarrow> bool" where
  "net_finished Net_exit = True"
| "net_finished _ = False"

fun parser_finished :: "parser_pc \<Rightarrow> bool" where
  "parser_finished Parser_exit = True"
| "parser_finished (Parser_crashed ex) = True"
| "parser_finished _ = False"

text \<open>
  \<^verbatim>\<open>start_threads\<close>, lines 147 to 156, and the first part of \<^verbatim>\<open>run\<close>, lines 163 to
  178: the threads are made and started. \<^verbatim>\<open>range(num)\<close> is empty for a negative \<open>num\<close>.
\<close>

definition start_threads :: "'pc worker list \<Rightarrow> int \<Rightarrow> 'pc \<Rightarrow> 'pc worker list" where
  "start_threads pool num func =
     pool @ replicate (nat num) \<lparr>thread = func, active = False, paused = False\<rparr>"

definition run_start :: "env \<Rightarrow> crawler \<Rightarrow> crawler" where
  "run_start e s =
     s\<lparr>task_generator_thread := Gen_next (task_generator e),
       net_threads := start_threads (net_threads s) (num_network_threads (config s)) Net_get,
       parser_threads := start_threads (parser_threads s) (num_parsers (config s)) Parser_get,
       main_thread := Main_while\<rparr>"

text \<open>
  The rest of \<^verbatim>\<open>run\<close>, lines 179 to 243: the loop, then the \<^verbatim>\<open>finally\<close> block. An
  exception raised in the loop is carried through the \<^verbatim>\<open>finally\<close> block and raised at
  its end, unless the block itself raises (line 242), which replaces it.
\<close>

fun run :: "main_pc \<Rightarrow> crawler \<Rightarrow> crawler option" where
  "run Main_while s =
     (if work_allowed s then Some (s\<lparr>main_thread := Main_poll\<rparr>)
      else Some (s\<lparr>main_thread :=
              Main_sentinel_net (nat (num_network_threads (config s))) None\<rparr>))"
| "run Main_poll s =
     (case fatal_errors s of
        [] \<Rightarrow> Some (s\<lparr>main_thread := Main_alive\<rparr>)
      | ex # exs \<Rightarrow>
          Some (s\<lparr>fatal_errors := exs,
                  main_thread :=
                    Main_sentinel_net (nat (num_network_threads (config s))) (Some ex)\<rparr>))"
| "run Main_alive s =
     (if \<not> is_alive (task_generator_thread s) then Some (s\<lparr>main_thread := Main_q1\<rparr>)
      else Some (s\<lparr>main_thread := Main_while\<rparr>))"
| "run Main_q1 s =
     (if qsize (request_queue s) = 0 then Some (s\<lparr>main_thread := Main_q2\<rparr>)
      else Some (s\<lparr>main_thread := Main_while\<rparr>))"
| "run Main_q2 s =
     (if qsize (response_queue s) = 0 then Some (s\<lparr>main_thread := Main_pause\<rparr>)
      else Some (s\<lparr>main_thread := Main_while\<rparr>))"
| "run Main_pause s = Some (s\<lparr>pause_event := True, main_thread := Main_spin_paused\<rparr>)"
| "run Main_spin_paused s =
     (if list_ex (\<lambda>x. \<not> paused x) (parser_threads s) then Some s
      else Some (s\<lparr>main_thread := Main_c1\<rparr>))"
| "run Main_c1 s =
     (if qsize (request_queue s) = 0 then Some (s\<lparr>main_thread := Main_c2\<rparr>)
      else Some (s\<lparr>main_thread := Main_unpause\<rparr>))"
| "run Main_c2 s =
     (if qsize (response_queue s) = 0 then Some (s\<lparr>main_thread := Main_c3\<rparr>)
      else Some (s\<lparr>main_thread := Main_unpause\<rparr>))"
| "run Main_c3 s =
     (if list_all (\<lambda>x. \<not> active x) (net_threads s) then Some (s\<lparr>main_thread := Main_disallow\<rparr>)
      else Some (s\<lparr>main_thread := Main_unpause\<rparr>))"
| "run Main_disallow s = Some (s\<lparr>work_allowed := False, main_thread := Main_unpause\<rparr>)"
| "run Main_unpause s = Some (s\<lparr>pause_event := False, main_thread := Main_resume\<rparr>)"
| "run Main_resume s = Some (s\<lparr>resume_event := True, main_thread := Main_spin_unpaused\<rparr>)"
| "run Main_spin_unpaused s =
     (if list_ex paused (parser_threads s) then Some s
      else Some (s\<lparr>main_thread := Main_clear\<rparr>))"
| "run Main_clear s = Some (s\<lparr>resume_event := False, main_thread := Main_while\<rparr>)"
| "run (Main_sentinel_net 0 pending) s =
     Some (s\<lparr>main_thread := Main_sentinel_parser (nat (num_parsers (config s))) pending\<rparr>)"
| "run (Main_sentinel_net (Suc k) pending) s =
     (case put None (request_queue s) of
        None \<Rightarrow> None
      | Some q \<Rightarrow>
          Some (s\<lparr>request_queue := q, main_log := main_log s @ [Put_request_sentinel],
                  main_thread := Main_sentinel_net k pending\<rparr>))"
| "run (Main_sentinel_parser 0 pending) s = Some (s\<lparr>main_thread := Main_join_net 0 pending\<rparr>)"
| "run (Main_sentinel_parser (Suc k) pending) s =
     (case put None (response_queue s) of
        None \<Rightarrow> None
      | Some q \<Rightarrow>
          Some (s\<lparr>response_queue := q, main_log := main_log s @ [Put_response_sentinel],
                  main_thread := Main_sentinel_parser k pending\<rparr>))"
| "run (Main_join_net j pending) s =
     (if length (net_threads s) \<le> j then Some (s\<lparr>main_thread := Main_join_parser 0 pending\<rparr>)
      else if net_finished (thread (net_threads s ! j))
      then Some (s\<lparr>main_log := main_log s @ [Joined_net j],
                   main_thread := Main_join_net (Suc j) pending\<rparr>)
      else None)"
| "run (Main_join_parser j pending) s =
     (if length (parser_threads s) \<le> j then Some (s\<lparr>main_thread := Main_final_poll pending\<rparr>)
      else if parser_finished (thread (parser_threads s ! j))
      then Some (s\<lparr>main_log := main_log s @ [Joined_parser j],
                   main_thread := Main_join_parser (Suc j) pending\<rparr>)
      else None)"
| "run (Main_final_poll pending) s =
     (case fatal_errors s of
        [] \<Rightarrow> Some (s\<lparr>main_thread := Main_hook pending\<rparr>)
      | ex # exs \<Rightarrow> Some (s\<lparr>fatal_errors := exs, main_thread := Main_raised ex\<rparr>))"
| "run (Main_hook pending) s =
     Some (s\<lparr>main_log := main_log s @ [Shutdown_hook],
             main_thread := (case pending of None \<Rightarrow> Main_returned | Some ex \<Rightarrow> Main_raised ex)\<rparr>)"
| "run Main_returned s = None"
| "run (Main_raised ex) s = None"

section \<open>Interleavings\<close>

datatype tid = Generator | Network nat | Parser nat | Main

text \<open>
  One step of one thread: \<open>None\<close> when the thread does not exist, has ended or is blocked
  in a \<^verbatim>\<open>get\<close>, \<^verbatim>\<open>put\<close>, \<^verbatim>\<open>wait\<close> or \<^verbatim>\<open>join\<close>.
\<close>

fun step :: "env \<Rightarrow> tid \<Rightarrow> crawler \<Rightarrow> crawler option" where
  "step e Generator s = worker_task_generator (task_generator_thread s) s"
| "step e (Network i) s =
     (if i < length (net_threads s) then worker_network e i (thread (net_threads s ! i)) s
      else None)"
| "step e (Parser i) s =
     (if i < length (parser_threads s) then worker_parser e i (thread (parser_threads s ! i)) s
      else None)"
| "step e Main s = run (main_thread s) s"

text \<open>A schedule is the order in which the threads take their steps.\<close>

fun exec :: "env \<Rightarrow> tid list \<Rightarrow> crawler \<Rightarrow> crawler option" where
  "exec e [] s = Some s"
| "exec e (t # ts) s = (case step e t s of None \<Rightarrow> None | Some s' \<Rightarrow> exec e ts s')"

section \<open>Runs used as examples\<close>

text \<open>A crawler on a machine with two cores, one network thread and a try limit of two.\<close>

definition fresh :: "env \<Rightarrow> crawler" where
  "fresh e = run_start e (init 2 1 2 10)"


text \<open>Nothing to crawl: the task generator yields nothing.\<close>

definition idle_env :: env where
  "idle_env = \<lparr>transport = (\<lambda>req. Fetched ''body''), handlers = Map.empty,
     task_generator = Exhausted\<rparr>"

text \<open>
  One task tagged \<^verbatim>\<open>boom\<close>, whose handler raises, and handlers whose results are a
  sequence that yields something that is not a request, and a sequence that raises.
\<close>

definition boom_request :: request where
  "boom_request = \<lparr>url = ''http://a/1'', tag = ''boom'', network_try_count = 0\<rparr>"

definition handler_env :: env where
  "handler_env =
     \<lparr>transport = (\<lambda>req. Fetched ''body''),
      handlers = [''boom'' \<mapsto> (\<lambda>req resp. Handler_raises (Error ''boom'')),
                  ''stray'' \<mapsto> (\<lambda>req resp. Returns_seq (Next (Other ''7'') Exhausted)),
                  ''late'' \<mapsto> (\<lambda>req resp. Returns_seq (Raising (Error ''late'')))],
      task_generator = Next (Req boom_request) Exhausted\<rparr>"

text \<open>One task whose tag has no handler.\<close>

definition untagged_request :: request where
  "untagged_request = \<lparr>url = ''http://a/2'', tag = ''nobody'', network_try_count = 0\<rparr>"

definition untagged_env :: env where
  "untagged_env =
     \<lparr>transport = (\<lambda>req. Fetched ''body''),
      handlers = [''boom'' \<mapsto> (\<lambda>req resp. Handler_raises (Error ''boom''))],
      task_generator = Next (Req untagged_request) Exhausted\<rparr>"

text \<open>
  The task goes from the generator through network worker 0 to parser 0, which looks its
  handler up and calls it.
\<close>

definition one_task_schedule :: "tid list" where
  "one_task_schedule =
     [Generator, Generator, Network 0, Network 0, Network 0, Network 0, Network 0,
      Parser 0, Parser 0]"

section \<open>Properties of states\<close>

text \<open>
  The requests of a state are those in the two queues and those that a thread holds at
  its place in the code. The predicates below say that the try count of each of them is
  at most \<open>L\<close>.
\<close>

fun seq_within :: "int \<Rightarrow> task lazy_seq \<Rightarrow> bool" where
  "seq_within L (Next (Req req) rest) = (network_try_count req \<le> L \<and> seq_within L rest)"
| "seq_within L (Next (Other x) rest) = seq_within L rest"
| "seq_within L Exhausted = True"
| "seq_within L (Raising ex) = True"

fun net_within :: "int \<Rightarrow> net_pc \<Rightarrow> bool" where
  "net_within L (Net_mark req) = (network_try_count req \<le> L)"
| "net_within L (Net_fetch req) = (network_try_count req \<le> L)"
| "net_within L (Net_requeue req) = (network_try_count req \<le> L)"
| "net_within L (Net_forward req resp) = (network_try_count req \<le> L)"
| "net_within L _ = True"

fun parser_within :: "int \<Rightarrow> parser_pc \<Rightarrow> bool" where
  "parser_within L (Parser_handle req resp) = (network_try_count req \<le> L)"
| "parser_within L (Parser_iter hdl_result) = seq_within L hdl_result"
| "parser_within L _ = True"

fun gen_within :: "int \<Rightarrow> gen_pc \<Rightarrow> bool" where
  "gen_within L (Gen_next tasks) = seq_within L tasks"
| "gen_within L (Gen_put req tasks) = (network_try_count req \<le> L \<and> seq_within L tasks)"
| "gen_within L Gen_exit = True"

fun request_item_within :: "int \<Rightarrow> request option \<Rightarrow> bool" where
  "request_item_within L None = True"
| "request_item_within L (Some req) = (network_try_count req \<le> L)"

fun response_item_within :: "int \<Rightarrow> (request \<times> response) option \<Rightarrow> bool" where
  "response_item_within L None = True"
| "response_item_within L (Some (req, resp)) = (network_try_count req \<le> L)"

text \<open>A rejected request has been tried once more than the limit allows.\<close>

fun rejected_beyond :: "int \<Rightarrow> request \<times> response option \<times> exn \<Rightarrow> bool" where
  "rejected_beyond L (req, resp, ex) = (network_try_count req = L + 1)"

definition counts_within :: "int \<Rightarrow> crawler \<Rightarrow> bool" where
  "counts_within L s =
     (network_try_limit (config s) = L
      \<and> list_all (request_item_within L) (items (request_queue s))
      \<and> list_all (response_item_within L) (items (response_queue s))
      \<and> (\<forall>j < length (net_threads s). net_within L (thread (net_threads s ! j)))
      \<and> (\<forall>j < length (parser_threads s). parser_within L (thread (parser_threads s ! j)))
      \<and> gen_within L (task_generator_thread s)
      \<and> list_all (rejected_beyond L) (rejected s))"

text \<open>
  The collaborators supply requests whose try count is at most \<open>L\<close>: the tasks of the
  generator, and what a handler yields for such a request.
\<close>

definition supplies_within :: "int \<Rightarrow> env \<Rightarrow> bool" where
  "supplies_within L e =
     (seq_within L (task_generator e)
      \<and> (\<forall>tg handler req resp hdl_result.
            handlers e tg = Some handler \<longrightarrow> network_try_count req \<le> L \<longrightarrow>
            handler req resp = Returns_seq hdl_result \<longrightarrow> seq_within L hdl_result))"

text \<open>
  Every response in the pipeline (in the response queue, or held by a network worker
  about to forward it or by a parser about to handle it) is what the transport returned
  for the request it is paired with.
\<close>

definition responses_fetched :: "env \<Rightarrow> crawler \<Rightarrow> bool" where
  "responses_fetched e s =
     ((\<forall>req resp. Some (req, resp) \<in> set (items (response_queue s))
          \<longrightarrow> transport e req = Fetched resp)
      \<and> (\<forall>j < length (net_threads s). \<forall>req resp.
            thread (net_threads s ! j) = Net_forward req resp \<longrightarrow> transport e req = Fetched resp)
      \<and> (\<forall>j < length (parser_threads s). \<forall>req resp.
            thread (parser_threads s ! j) = Parser_handle req resp
            \<longrightarrow> transport e req = Fetched resp))"

text \<open>
  One task whose every fetch times out. The schedule lets the generator enqueue it and
  network worker 0 fetch it three times: twice it puts the request back (five steps
  each), the third time it rejects the request (four steps).
\<close>

definition down_request :: request where
  "down_request = \<lparr>url = ''http://down/'', tag = ''page'', network_try_count = 0\<rparr>"

definition down_env :: env where
  "down_env =
     \<lparr>transport = (\<lambda>req. Fetch_raises (NetworkError ''timed out'')),
      handlers = Map.empty,
      task_generator = Next (Req down_request) Exhausted\<rparr>"

definition retry_schedule :: "tid list" where
  "retry_schedule =
     [Generator, Generator,
      Network 0, Network 0, Network 0, Network 0, Network 0,
      Network 0, Network 0, Network 0, Network 0, Network 0,
      Network 0, Network 0, Network 0, Network 0]"

text \<open>
  The run of \<open>down_env\<close> in which the main thread makes its checks of lines 206 to 211
  while network worker 0 is retrying: the generator enqueues the task and ends; the
  worker takes it and is about to fetch; the main thread finds both queues empty and
  asks for the pause; the parser pauses; the main thread reads the size of the request
  queue and of the response queue (lines 206, 207); the worker's fetch fails, it puts
  the request back and marks itself inactive; the main thread reads the active flags
  (lines 208 to 211) and disallows work (line 214).
\<close>

definition race_schedule :: "tid list" where
  "race_schedule =
     [Generator, Generator, Generator, Network 0, Network 0,
      Main, Main, Main, Main, Main, Main, Parser 0, Main, Main, Main,
      Network 0, Network 0, Network 0, Main, Main]"

text \<open>
  How that run goes on: the main thread resumes the parser, leaves the loop and waits to
  push its sentinel; the worker takes the request and fetches again; the sentinel fills
  the request queue; the worker cannot put the request back.
\<close>

definition race_aftermath :: "tid list" where
  "race_aftermath =
     [Main, Main, Parser 0, Main, Main, Main,
      Network 0, Network 0, Network 0, Main, Main, Main, Main, Parser 0]"

text \<open>
  Two tasks whose handler raises an error that names the request. In this run both are
  fetched and handled before the main thread polls the fatal error channel.
\<close>

definition first_request :: request where
  "first_request = \<lparr>url = ''http://a/1'', tag = ''boom'', network_try_count = 0\<rparr>"

definition second_request :: request where
  "second_request = \<lparr>url = ''http://a/2'', tag = ''boom'', network_try_count = 0\<rparr>"

definition two_errors_env :: env where
  "two_errors_env =
     \<lparr>transport = (\<lambda>req. Fetched ''body''),
      handlers = [''boom'' \<mapsto> (\<lambda>req resp. Handler_raises (Error (url req)))],
      task_generator = Next (Req first_request) (Next (Req second_request) Exhausted)\<rparr>"

definition two_errors_handled :: "tid list" where
  "two_errors_handled =
     [Generator, Generator, Generator, Network 0, Generator, Generator,
      Network 0, Network 0, Network 0, Network 0, Parser 0, Parser 0,
      Network 0, Network 0, Network 0, Network 0, Network 0, Parser 0, Parser 0]"

definition two_errors_schedule :: "tid list" where
  "two_errors_schedule =
     two_errors_handled
     @ [Main, Main, Main, Main, Main, Main, Network 0, Parser 0,
        Main, Main, Main, Main, Main]"

text \<open>
  The run of \<open>handler_env\<close> to its end: its one task is fetched and handled, the handler
  raises, the main thread polls the error and goes through the \<^verbatim>\<open>finally\<close> block.
\<close>

definition one_error_schedule :: "tid list" where
  "one_error_schedule =
     one_task_schedule
     @ [Main, Main, Main, Main, Main, Main, Network 0, Parser 0,
        Main, Main, Main, Main, Main, Main]"











section \<open>The life of one request that cannot be fetched\<close>













section \<open>Construction\<close>

text \<open>
  C9. The queues are sized from the configuration when the crawler is constructed: the
  bound of the request queue is the configured number of network threads, so that a
  queue holding \<open>xs\<close> is full exactly when that number is positive and at most the
  length of \<open>xs\<close>; the bound of the response queue is the number of parsers, which is
  \<open>max 1 (cpu_count div 2)\<close>.
\<close>

theorem init_queue_sizes:
  "maxsize (request_queue (init cpus n l t)) = num_network_threads (config (init cpus n l t))
   \<and> num_network_threads (config (init cpus n l t)) = n
   \<and> maxsize (response_queue (init cpus n l t)) = num_parsers (config (init cpus n l t))
   \<and> num_parsers (config (init cpus n l t)) = max 1 (cpus div 2)
   \<and> full ((request_queue (init cpus n l t))\<lparr>items := xs\<rparr>) = (0 < n \<and> n \<le> int (length xs))
   \<and> full ((response_queue (init cpus n l t))\<lparr>items := ys\<rparr>)
       = (max 1 (cpus div 2) \<le> int (length ys))"
  by (auto simp: init_def Queue_def full_def qsize_def Let_def)

section \<open>Facts about schedules\<close>


section \<open>The task generator worker\<close>






section \<open>The parser workers\<close>

text \<open>
  C5 fails on the code. A parser worker whose \<^verbatim>\<open>get\<close> times out on the empty response
  queue marks itself paused and then blocks on the resume event, whether the pause event
  is set or not: line 125 tests the event object, not \<^verbatim>\<open>is_set()\<close>. Here no pause has
  been requested, and parser 0 ends paused and cannot take another step.
\<close>

theorem parser_pauses_without_request:
  "pause_event (fresh idle_env) = False
   \<and> items (response_queue (fresh idle_env)) = []
   \<and> map_option (\<lambda>s. (thread (parser_threads s ! 0), paused (parser_threads s ! 0)))
         (step idle_env (Parser 0) (fresh idle_env)) = Some (Parser_wait, True)
   \<and> exec idle_env [Parser 0, Parser 0] (fresh idle_env) = None"
  by (simp add: fresh_def idle_env_def run_start_def init_def Let_def start_threads_def
      Queue_def get_def truth_of_Event_def set_parser_def set_paused_def)

text \<open>The definitions that a concrete run unfolds.\<close>

lemmas run_defs = fresh_def run_start_def init_def Let_def start_threads_def
      Queue_def get_def put_def full_def qsize_def truth_of_Event_def set_parser_def set_paused_def set_net_def set_active_def

text \<open>
  C4, as amended. For an item whose tag has a handler, every error raised inside the
  \<^verbatim>\<open>try\<close> of lines 137 to 142 (by the call of the handler, by pulling from the
  sequence it returned, or by the assertion on a yielded value that is not a request) is
  appended to the fatal error channel and the worker is back at its \<^verbatim>\<open>get\<close>, ready for
  the next item; such a worker does not end with an exception.
\<close>

theorem parser_errors_forwarded:
  assumes "i < length (parser_threads s)"
  shows "(thread (parser_threads s ! i) = Parser_handle req resp \<longrightarrow>
            handlers e (tag req) = Some h \<longrightarrow> h req resp = Handler_raises ex \<longrightarrow>
            step e (Parser i) s
              = Some (set_parser i Parser_get (s\<lparr>fatal_errors := fatal_errors s @ [ex]\<rparr>)))
       \<and> (thread (parser_threads s ! i) = Parser_iter (Raising ex) \<longrightarrow>
            step e (Parser i) s
              = Some (set_parser i Parser_get (s\<lparr>fatal_errors := fatal_errors s @ [ex]\<rparr>)))
       \<and> (thread (parser_threads s ! i) = Parser_iter (Next (Other x) rest) \<longrightarrow>
            step e (Parser i) s
              = Some (set_parser i Parser_get
                       (s\<lparr>fatal_errors := fatal_errors s @ [AssertionError]\<rparr>)))
       \<and> (\<forall>s'. step e (Parser i) s = Some s' \<longrightarrow>
            (\<forall>rq rs. thread (parser_threads s ! i) = Parser_handle rq rs \<longrightarrow>
                      tag rq \<in> dom (handlers e)) \<longrightarrow>
            \<not> parser_finished (thread (parser_threads s' ! i))
            \<or> thread (parser_threads s' ! i) = Parser_exit)"
proof -
  have "\<not> parser_finished (thread (parser_threads s' ! i))
            \<or> thread (parser_threads s' ! i) = Parser_exit"
    if "step e (Parser i) s = Some s'"
      and "\<forall>rq rs. thread (parser_threads s ! i) = Parser_handle rq rs \<longrightarrow>
                      tag rq \<in> dom (handlers e)"
    for s'
    using that assms
    by (cases "(e, i, thread (parser_threads s ! i), s)" rule: worker_parser.cases)
      (auto simp: set_parser_def set_paused_def put_def get_def truth_of_Event_def
        split: option.splits if_splits list.splits handler_result.splits)
  with assms show ?thesis by auto
qed

theorem parser_errors_forwarded_witness:
  "(0::nat) < length (parser_threads (fresh handler_env))
   \<and> handlers handler_env (tag boom_request) \<noteq> None
   \<and> map_option (\<lambda>s. (fatal_errors s, thread (parser_threads s ! 0)))
        (step handler_env (Parser 0)
           (set_parser 0 (Parser_handle boom_request ''body'') (fresh handler_env)))
       = Some ([Error ''boom''], Parser_get)
   \<and> map_option (\<lambda>s. (fatal_errors s, thread (parser_threads s ! 0)))
        (step handler_env (Parser 0)
           (set_parser 0 (Parser_iter (Raising (Error ''late''))) (fresh handler_env)))
       = Some ([Error ''late''], Parser_get)
   \<and> map_option (\<lambda>s. (fatal_errors s, thread (parser_threads s ! 0)))
        (step handler_env (Parser 0)
           (set_parser 0 (Parser_iter (Next (Other ''7'') Exhausted)) (fresh handler_env)))
       = Some ([AssertionError], Parser_get)
   \<and> map_option (\<lambda>s. (fatal_errors s, thread (parser_threads s ! 0)))
        (exec handler_env one_task_schedule (fresh handler_env))
       = Some ([Error ''boom''], Parser_get)"
  using
    parser_errors_forwarded [of 0
      "set_parser 0 (Parser_handle boom_request ''body'') (fresh handler_env)"
      boom_request "''body''" handler_env "\<lambda>req resp. Handler_raises (Error ''boom'')"
      "Error ''boom''"]
    parser_errors_forwarded [of 0
      "set_parser 0 (Parser_iter (Raising (Error ''late''))) (fresh handler_env)"
      _ _ handler_env _ "Error ''late''"]
    parser_errors_forwarded [of 0
      "set_parser 0 (Parser_iter (Next (Other ''7'') Exhausted)) (fresh handler_env)"
      _ _ handler_env _ _ "''7''" Exhausted]
  by (simp add: run_defs handler_env_def one_task_schedule_def boom_request_def)

text \<open>
  The claim as stated fails for the lookup of the handler, line 133, which stands before
  the \<^verbatim>\<open>try\<close>: for a tag without handler the \<^verbatim>\<open>KeyError\<close> ends the parser thread,
  and the fatal error channel stays empty.
\<close>

theorem parser_errors_forwarded_counterexample:
  "map_option (\<lambda>s. (fatal_errors s, thread (parser_threads s ! 0)))
        (exec untagged_env one_task_schedule (fresh untagged_env))
       = Some ([], Parser_crashed (KeyError ''nobody''))
   \<and> exec untagged_env (one_task_schedule @ [Parser 0]) (fresh untagged_env) = None"
  by (simp add: run_defs untagged_env_def one_task_schedule_def untagged_request_def)

section \<open>Invariants of a run\<close>

text \<open>Every step of every thread keeps the responses paired with their requests.\<close>

lemma responses_fetched_step:
  assumes "step e t s = Some s'" and "responses_fetched e s"
  shows "responses_fetched e s'"
proof (cases t)
  case Generator
  with assms show ?thesis
    by (cases "(task_generator_thread s, s)" rule: worker_task_generator.cases)
      (auto simp: responses_fetched_def put_def split: option.splits if_splits task.splits)
next
  case (Network i)
  with assms show ?thesis
    by (cases "thread (net_threads s ! i)")
      (auto simp: responses_fetched_def set_net_def set_active_def put_def get_def Let_def
        nth_list_update
        split: option.splits if_splits list.splits fetch_result.splits exn.splits)
next
  case (Parser i)
  with assms show ?thesis
    by (cases "(e, i, thread (parser_threads s ! i), s)" rule: worker_parser.cases)
      (auto simp: responses_fetched_def set_parser_def set_paused_def put_def get_def
        nth_list_update
        split: option.splits if_splits list.splits handler_result.splits)
next
  case Main
  with assms show ?thesis
    by (cases "(main_thread s, s)" rule: run.cases)
      (auto simp: responses_fetched_def put_def split: option.splits if_splits list.splits)
qed

lemma responses_fetched_exec:
  "exec e sched s = Some s' \<Longrightarrow> responses_fetched e s \<Longrightarrow> responses_fetched e s'"
  by (induction sched arbitrary: s) (auto split: option.splits dest: responses_fetched_step)

lemma responses_fetched_start: "responses_fetched e (run_start e (init cpus n l t))"
  by (auto simp: responses_fetched_def run_start_def init_def Let_def start_threads_def
      Queue_def nth_append)

text \<open>
  Every step of every thread keeps the try counts within the limit, when the
  collaborators supply requests within the limit.
\<close>

lemma counts_within_step:
  assumes "step e t s = Some s'" and "counts_within L s" and "supplies_within L e"
  shows "counts_within L s'"
proof (cases t)
  case Generator
  with assms show ?thesis
    by (cases "(task_generator_thread s, s)" rule: worker_task_generator.cases)
      (auto simp: counts_within_def put_def split: option.splits if_splits task.splits)
next
  case (Network i)
  with assms(1) have i: "i < length (net_threads s)"
    by (simp split: if_splits)
  with assms(2) have "net_within L (thread (net_threads s ! i))"
    by (simp add: counts_within_def)
  with assms Network i show ?thesis
    by (cases "thread (net_threads s ! i)")
      (auto simp: counts_within_def set_net_def set_active_def put_def get_def Let_def
        nth_list_update
        split: option.splits if_splits list.splits fetch_result.splits exn.splits)
next
  case (Parser i)
  with assms(1) have i: "i < length (parser_threads s)"
    by (simp split: if_splits)
  define pc where "pc = thread (parser_threads s ! i)"
  with assms(2) i have here: "parser_within L pc"
    by (simp add: counts_within_def)
  have "thread (parser_threads s ! i) = pc"
    by (simp add: pc_def)
  with assms Parser i here show ?thesis
    by (cases "(e, i, pc, s)" rule: worker_parser.cases)
      (auto simp: counts_within_def supplies_within_def set_parser_def set_paused_def put_def
        get_def nth_list_update
        split: option.splits if_splits list.splits handler_result.splits)
next
  case Main
  with assms show ?thesis
    by (cases "(main_thread s, s)" rule: run.cases)
      (auto simp: counts_within_def put_def split: option.splits if_splits list.splits)
qed

lemma counts_within_exec:
  "exec e sched s = Some s' \<Longrightarrow> counts_within L s \<Longrightarrow> supplies_within L e
   \<Longrightarrow> counts_within L s'"
  by (induction sched arbitrary: s) (auto split: option.splits dest: counts_within_step)

lemma counts_within_start:
  "supplies_within L e \<Longrightarrow> counts_within L (run_start e (init cpus n L t))"
  by (auto simp: counts_within_def supplies_within_def run_start_def init_def Let_def
      start_threads_def Queue_def nth_append)

section \<open>The network workers\<close>

text \<open>
  C6, as amended. When the task generator and the handlers supply requests whose try
  count is at most the limit, then in every state of a run: every request in the
  request queue, and every request that a network worker is about to fetch, has a try
  count of at most the limit; every rejected request has a try count of exactly the
  limit plus one. A fetch that fails with a network error adds one to the count; if the
  new count is over the limit, the worker stores the statistic, calls
  \<^verbatim>\<open>process_rejected_request\<close> and goes on without the request, which is not put back;
  otherwise it goes on to put the request back.
\<close>

theorem try_count_bounded:
  assumes "supplies_within L e" and "exec e sched (run_start e (init cpus n L t)) = Some s"
  shows "(\<forall>req. Some req \<in> set (items (request_queue s)) \<longrightarrow> network_try_count req \<le> L)
       \<and> (\<forall>i req. i < length (net_threads s) \<longrightarrow> thread (net_threads s ! i) = Net_fetch req
            \<longrightarrow> network_try_count req \<le> L)
       \<and> (\<forall>req resp ex. (req, resp, ex) \<in> set (rejected s) \<longrightarrow> network_try_count req = L + 1)
       \<and> (\<forall>i req m. i < length (net_threads s) \<longrightarrow> thread (net_threads s ! i) = Net_fetch req
            \<longrightarrow> transport e req = Fetch_raises (NetworkError m)
            \<longrightarrow> step e (Network i) s
                = Some (if L < network_try_count req + 1
                        then set_net i Net_unmark
                          (s\<lparr>fetched := fetched s @ [req],
                             stat := stat s @ [(''network_try_limit'', url req @ ''|'' @ m)],
                             rejected := rejected s
                               @ [(req\<lparr>network_try_count := network_try_count req + 1\<rparr>,
                                   None, NetworkError m)]\<rparr>)
                        else set_net i
                          (Net_requeue (req\<lparr>network_try_count := network_try_count req + 1\<rparr>))
                          (s\<lparr>fetched := fetched s @ [req]\<rparr>)))"
proof -
  have inv: "counts_within L s"
    using assms counts_within_exec counts_within_start by blast
  have a: "network_try_count req \<le> L" if "Some req \<in> set (items (request_queue s))" for req
    using inv that by (auto simp: counts_within_def list_all_iff)
  have b: "network_try_count req \<le> L"
    if "i < length (net_threads s)" "thread (net_threads s ! i) = Net_fetch req" for i req
    using inv that by (auto simp: counts_within_def)
  have c: "network_try_count req = L + 1" if "(req, resp, ex) \<in> set (rejected s)" for req resp ex
    using inv that by (auto simp: counts_within_def list_all_iff)
  have d: "network_try_limit (config s) = L"
    using inv by (simp add: counts_within_def)
  show ?thesis
    using a b c d by (auto simp: Let_def set_net_def)
qed

theorem try_count_bounded_witness:
  "supplies_within 2 down_env
   \<and> (\<exists>s. exec down_env retry_schedule (fresh down_env) = Some s
          \<and> map (\<lambda>(req, resp, ex). network_try_count req) (rejected s) = [2 + 1]
          \<and> items (request_queue s) = [])
   \<and> (\<exists>s. exec down_env [Generator, Generator, Network 0, Network 0] (fresh down_env) = Some s
          \<and> thread (net_threads s ! 0) = Net_fetch down_request
          \<and> map_option (\<lambda>s. thread (net_threads s ! 0)) (step down_env (Network 0) s)
              = Some (Net_requeue (down_request\<lparr>network_try_count := 1\<rparr>)))"
proof -
  have sup: "supplies_within 2 down_env"
    by (simp add: supplies_within_def down_env_def down_request_def)
  obtain s where s: "exec down_env retry_schedule (fresh down_env) = Some s"
    and r: "map (\<lambda>(req, resp, ex). network_try_count req) (rejected s) = [3]"
    and q: "items (request_queue s) = []"
    by (simp add: run_defs down_env_def down_request_def retry_schedule_def)
  obtain u where u: "exec down_env [Generator, Generator, Network 0, Network 0] (fresh down_env)
      = Some u"
    and f: "thread (net_threads u ! 0) = Net_fetch down_request"
    and l: "0 < length (net_threads u)"
    by (simp add: run_defs down_env_def down_request_def)
  have u': "exec down_env [Generator, Generator, Network 0, Network 0]
      (run_start down_env (init 2 1 2 10)) = Some u"
    using u by (simp only: fresh_def)
  have tr: "transport down_env down_request = Fetch_raises (NetworkError ''timed out'')"
    by (simp add: down_env_def)
  have "step down_env (Network 0) u
      = Some (set_net 0 (Net_requeue (down_request\<lparr>network_try_count := 1\<rparr>))
               (u\<lparr>fetched := fetched u @ [down_request]\<rparr>))"
    using try_count_bounded [OF sup u', THEN conjunct2, THEN conjunct2, THEN conjunct2,
        rule_format, OF l f tr]
    by (simp add: down_request_def del: step.simps)
  then have "map_option (\<lambda>s. thread (net_threads s ! 0)) (step down_env (Network 0) u)
      = Some (Net_requeue (down_request\<lparr>network_try_count := 1\<rparr>))"
    using l by (simp add: set_net_def del: step.simps)
  with sup s r q u f show ?thesis by auto
qed

text \<open>
  The claim as stated fails: with a limit of two, the request that is rejected after its
  third failure has a try count of three.
\<close>

theorem try_count_bounded_counterexample:
  "map_option (\<lambda>s. (map (\<lambda>(req, resp, ex). network_try_count req) (rejected s),
                      network_try_limit (config s)))
     (exec down_env retry_schedule (fresh down_env)) = Some ([3], 2)"
  by (simp add: run_defs down_env_def down_request_def retry_schedule_def)

text \<open>
  C7. In every state of a run, a pair in the response queue, and a pair that a parser is
  about to handle, consists of a request and the response that the transport returned for
  it. A step of a network worker changes the response queue only by appending such a
  pair, at line 103. The step that fetches and gets an exception leaves the response
  queue as it is and goes on to line 105 or, to retry, to line 99. A rejected request is
  in no pair of the response queue.
\<close>

theorem result_queue_only_fetched:
  assumes "exec e sched (run_start e (init cpus n l t)) = Some s"
  shows "(\<forall>req resp. Some (req, resp) \<in> set (items (response_queue s))
            \<longrightarrow> transport e req = Fetched resp)
       \<and> (\<forall>j req resp. j < length (parser_threads s)
            \<longrightarrow> thread (parser_threads s ! j) = Parser_handle req resp
            \<longrightarrow> transport e req = Fetched resp)
       \<and> (\<forall>i s'. i < length (net_threads s) \<longrightarrow> step e (Network i) s = Some s'
            \<longrightarrow> response_queue s' \<noteq> response_queue s
            \<longrightarrow> (\<exists>req resp. thread (net_threads s ! i) = Net_forward req resp
                  \<and> transport e req = Fetched resp
                  \<and> items (response_queue s') = items (response_queue s) @ [Some (req, resp)]))
       \<and> (\<forall>i req ex s'. i < length (net_threads s)
            \<longrightarrow> thread (net_threads s ! i) = Net_fetch req
            \<longrightarrow> transport e req = Fetch_raises ex
            \<longrightarrow> step e (Network i) s = Some s'
            \<longrightarrow> response_queue s' = response_queue s
                \<and> (thread (net_threads s' ! i) = Net_unmark
                    \<or> thread (net_threads s' ! i)
                        = Net_requeue (req\<lparr>network_try_count := network_try_count req + 1\<rparr>)))
       \<and> (supplies_within l e
            \<longrightarrow> (\<forall>req none ex resp. (req, none, ex) \<in> set (rejected s)
                  \<longrightarrow> Some (req, resp) \<notin> set (items (response_queue s))))"
proof -
  have inv: "responses_fetched e s"
    using assms responses_fetched_exec responses_fetched_start by blast
  have a: "transport e req = Fetched resp"
    if "Some (req, resp) \<in> set (items (response_queue s))" for req resp
    using inv that by (auto simp: responses_fetched_def)
  have b: "transport e req = Fetched resp"
    if "j < length (parser_threads s)" "thread (parser_threads s ! j) = Parser_handle req resp"
    for j req resp
    using inv that by (auto simp: responses_fetched_def)
  have c: "\<exists>req resp. thread (net_threads s ! i) = Net_forward req resp
                  \<and> transport e req = Fetched resp
                  \<and> items (response_queue s') = items (response_queue s) @ [Some (req, resp)]"
    if "i < length (net_threads s)" "step e (Network i) s = Some s'"
      "response_queue s' \<noteq> response_queue s" for i s'
    using inv that
    by (cases "thread (net_threads s ! i)")
      (auto simp: responses_fetched_def set_net_def set_active_def put_def get_def Let_def
        split: option.splits if_splits list.splits fetch_result.splits exn.splits)
  have d: "response_queue s' = response_queue s
                \<and> (thread (net_threads s' ! i) = Net_unmark
                    \<or> thread (net_threads s' ! i)
                        = Net_requeue (req\<lparr>network_try_count := network_try_count req + 1\<rparr>))"
    if "i < length (net_threads s)" "thread (net_threads s ! i) = Net_fetch req"
      "transport e req = Fetch_raises ex" "step e (Network i) s = Some s'" for i req ex s'
    using that
    by (auto simp: set_net_def Let_def split: exn.splits if_splits)
  have f: "Some (req, resp) \<notin> set (items (response_queue s))"
    if sup: "supplies_within l e" and rej: "(req, none, ex) \<in> set (rejected s)"
    for req none ex resp
  proof
    assume q: "Some (req, resp) \<in> set (items (response_queue s))"
    have cw: "counts_within l s"
      using assms sup counts_within_exec counts_within_start by blast
    from cw rej have "network_try_count req = l + 1"
      by (auto simp: counts_within_def list_all_iff)
    moreover from cw q have "network_try_count req \<le> l"
      by (auto simp: counts_within_def list_all_iff)
    ultimately show False by simp
  qed
  show ?thesis
    using a b c d f by blast
qed


theorem result_queue_only_fetched_witness:
  "(\<exists>s. exec handler_env [Generator, Generator, Network 0, Network 0, Network 0, Network 0]
            (fresh handler_env) = Some s
        \<and> items (response_queue s) = [Some (boom_request, ''body'')]
        \<and> transport handler_env boom_request = Fetched ''body'')
   \<and> (\<exists>s. exec down_env [Generator, Generator, Network 0, Network 0] (fresh down_env) = Some s
        \<and> thread (net_threads s ! 0) = Net_fetch down_request
        \<and> transport down_env down_request = Fetch_raises (NetworkError ''timed out'')
        \<and> map_option (\<lambda>s. items (response_queue s)) (step down_env (Network 0) s) = Some []
        \<and> items (response_queue s) = [])"
proof -
  obtain s where s: "exec handler_env
      [Generator, Generator, Network 0, Network 0, Network 0, Network 0]
      (run_start handler_env (init 2 1 2 10)) = Some s"
    and q: "items (response_queue s) = [Some (boom_request, ''body'')]"
    by (simp add: run_defs handler_env_def boom_request_def)
  from result_queue_only_fetched [OF s] q
  have t: "transport handler_env boom_request = Fetched ''body''"
    by simp
  obtain u where u: "exec down_env [Generator, Generator, Network 0, Network 0]
      (run_start down_env (init 2 1 2 10)) = Some u"
    and f: "thread (net_threads u ! 0) = Net_fetch down_request"
    and l: "0 < length (net_threads u)"
    and e: "items (response_queue u) = []"
    by (simp add: run_defs down_env_def down_request_def)
  have tr: "transport down_env down_request = Fetch_raises (NetworkError ''timed out'')"
    by (simp add: down_env_def)
  have "\<exists>u'. step down_env (Network 0) u = Some u'"
    using l f by (simp add: Let_def tr)
  then obtain u' where u': "step down_env (Network 0) u = Some u'" ..
  from result_queue_only_fetched [OF u, THEN conjunct2, THEN conjunct2, THEN conjunct2,
      THEN conjunct1, rule_format, OF l f tr u']
  have "response_queue u' = response_queue u"
    by simp
  with u' e have "map_option (\<lambda>s. items (response_queue s)) (step down_env (Network 0) u)
      = Some []"
    by (simp del: step.simps)
  with s q t u f tr e show ?thesis
    by (auto simp: fresh_def simp del: step.simps exec.simps)
qed






section \<open>The main thread\<close>

text \<open>
  C1 fails on the code. The checks of lines 206 to 211 are three reads, one after the
  other. In the run \<open>race_schedule\<close> the request queue is empty when its size is read;
  then network worker 0, whose fetch has failed, puts the request back and marks itself
  inactive; then the active flags are read. The main thread is at line 214 with work
  still allowed and a request in the request queue, and disallows work with that request
  in the queue.
\<close>

theorem shutdown_with_request_queued:
  "map_option (\<lambda>s. (main_thread s, work_allowed s, items (request_queue s)))
     (exec down_env (butlast race_schedule) (fresh down_env))
     = Some (Main_disallow, True, [Some (down_request\<lparr>network_try_count := 1\<rparr>)])
   \<and> map_option (\<lambda>s. (main_thread s, work_allowed s, items (request_queue s)))
     (exec down_env race_schedule (fresh down_env))
     = Some (Main_unpause, False, [Some (down_request\<lparr>network_try_count := 1\<rparr>)])"
  by (simp add: run_defs down_env_def down_request_def race_schedule_def)

text \<open>
  That run can go on to a state in which no thread can take a step: the sentinel fills
  the request queue, network worker 0 is blocked putting the request back, and the main
  thread is blocked joining it.
\<close>

lemma premature_shutdown_hangs:
  "map_option (\<lambda>s. (main_thread s, thread (net_threads s ! 0), items (request_queue s),
        map (\<lambda>t. step down_env t s = None) [Generator, Network 0, Parser 0, Main]))
     (exec down_env (race_schedule @ race_aftermath) (fresh down_env))
     = Some (Main_join_net 0 None,
             Net_requeue (down_request\<lparr>network_try_count := 2\<rparr>), [None],
             [True, True, True, True])"
  by (simp add: run_defs down_env_def down_request_def race_schedule_def race_aftermath_def)

text \<open>
  C8 fails on the code. When the poll of line 238 finds an error, line 242 raises it and
  line 243 is not reached. In the run \<open>two_errors_schedule\<close> the loop polls the first
  error, the \<^verbatim>\<open>finally\<close> block pushes the sentinels and joins the threads, its poll
  finds the second error, and \<^verbatim>\<open>run\<close> raises it: the shutdown hook has not been called.
  In the run \<open>one_error_schedule\<close>, where the channel is empty at line 238, \<^verbatim>\<open>run\<close>
  raises after the hook has been called.
\<close>

theorem shutdown_hook_skipped:
  "map_option (\<lambda>s. (main_thread s, main_log s, fatal_errors s))
     (exec two_errors_env two_errors_schedule (fresh two_errors_env))
     = Some (Main_raised (Error ''http://a/2''),
             [Put_request_sentinel, Put_response_sentinel, Joined_net 0, Joined_parser 0],
             [])
   \<and> map_option (\<lambda>s. (main_thread s, main_log s, fatal_errors s))
     (exec handler_env one_error_schedule (fresh handler_env))
     = Some (Main_raised (Error ''boom''),
             [Put_request_sentinel, Put_response_sentinel, Joined_net 0, Joined_parser 0,
              Shutdown_hook],
             [])"
  by (simp add: run_defs two_errors_env_def first_request_def second_request_def
      two_errors_schedule_def two_errors_handled_def handler_env_def boom_request_def
      one_error_schedule_def one_task_schedule_def)
















section \<open>The retries of one request, by the pool\<close>













end
